theory Spec2Isabelle
  imports Main
begin

section \<open>The world the widgets act on\<close>

text \<open>
  The module \<^verbatim>\<open>xontrib/fzf_widgets.py\<close> is glue between a line editor, the process
  environment and a child process. Everything it reads or mutates is made explicit here.

  Strings are \<^typ>\<open>string\<close>: lists of characters with codes below 256.
\<close>

text \<open>
  The module raises \<^verbatim>\<open>Exception(msg)\<close>; the builtin \<^verbatim>\<open>len\<close> raises \<^verbatim>\<open>TypeError\<close> for an
  argument without length.
\<close>

datatype error = Exception string | TypeError

text \<open>
  What the module does to the outside, in program order. \<open>Captured\<close> is a call of
  \<^verbatim>\<open>subproc_captured_stdout(args)\<close>; \<open>Popen\<close> is \<^verbatim>\<open>subprocess.Popen\<close> with both pipes;
  \<open>SubprocessRun\<close> is \<^verbatim>\<open>subprocess.run\<close>, which spawns the child and returns after
  it has exited: it records the argument list, the optional text given as \<^verbatim>\<open>input=\<close>, the
  environment handed to the child and the working directory the child starts in.
\<close>

datatype event =
    Captured "string list"
  | Popen "string list"
  | StdinWrite string
  | StdinClose
  | Wait
  | StdoutRead
  | SubprocessRun "string list" "string option" "string \<rightharpoonup> string" string
  | Chdir string
  | Erase
  | SetText string
  | SetCursor nat
  | DeleteBeforeCursor nat
  | InsertText string

text \<open>
  The mutable state: \<^verbatim>\<open>XSH.env\<close>, \<^verbatim>\<open>XSH.history\<close> (\<open>None\<close> when the shell has no
  history object, otherwise the dicts that \<^verbatim>\<open>all_items()\<close> yields), \<^verbatim>\<open>os.environ\<close>, the
  process's working directory, the edit buffer of the event, and the trace of effects.
\<close>

record world =
  xsh_env :: "string \<rightharpoonup> string"
  xsh_history :: "(string \<rightharpoonup> string) list option"
  os_environ :: "string \<rightharpoonup> string"
  os_cwd :: string
  buffer_text :: string
  cursor_position :: nat
  trace :: "event list"

text \<open>
  What the module calls but does not own, taken as parameters: the captured output of an
  external command, what the finder child prints on its standard output, the records that
  \<^verbatim>\<open>history_main(["show", "-0", "all"])\<close> writes, xonsh's \<^verbatim>\<open>complete_path\<close> (its first
  component, a set, given as the list of its distinct elements), and three functions of
  \<^verbatim>\<open>os.path\<close>.
\<close>

record host =
  captured_stdout :: "string list \<Rightarrow> string"
  finder_stdout :: string
  history_show :: "string list"
  complete_path :: "string \<Rightarrow> string \<Rightarrow> nat \<Rightarrow> nat \<Rightarrow> string list"
  normpath :: "string \<Rightarrow> string"
  expanduser :: "string \<Rightarrow> string"
  isdir :: "string \<Rightarrow> bool"

definition emit :: "event \<Rightarrow> world \<Rightarrow> world" where
  "emit e w = w\<lparr>trace := trace w @ [e]\<rparr>"

section \<open>Python's string methods\<close>

text \<open>Truthiness of a \<^verbatim>\<open>str\<close>: non-empty. \<^verbatim>\<open>str.isspace\<close> for code points below 256.\<close>

definition isspace :: "char \<Rightarrow> bool" where
  "isspace c = (of_char c \<in> {9, 10, 11, 12, 13, 28, 29, 30, 31, 32, 133, 160 :: nat})"

text \<open>\<^verbatim>\<open>s.strip()\<close>: leading and trailing whitespace removed.\<close>

definition strip :: "string \<Rightarrow> string" where
  "strip s = rev (dropWhile isspace (rev (dropWhile isspace s)))"

text \<open>\<^verbatim>\<open>s.rfind(c, 0, len(s))\<close>: the highest index of \<open>c\<close>, or \<open>-1\<close>.\<close>

definition rfind :: "string \<Rightarrow> char \<Rightarrow> int" where
  "rfind s c =
     (if c \<in> set s then int (length s - 1 - length (takeWhile (\<lambda>x. x \<noteq> c) (rev s))) else - 1)"

text \<open>
  \<^verbatim>\<open>s.splitlines()\<close>: split at line boundaries (\<^verbatim>\<open>\r\n\<close> counts as one), the boundaries
  dropped, no empty last line. The first argument is the current line, reversed.
\<close>

definition is_linebreak :: "char \<Rightarrow> bool" where
  "is_linebreak c = (of_char c \<in> {10, 11, 12, 13, 28, 29, 30, 133 :: nat})"

fun splitlines_from :: "string \<Rightarrow> string \<Rightarrow> string list" where
  "splitlines_from cur [] = (if cur = [] then [] else [rev cur])"
| "splitlines_from cur [c] =
     (if is_linebreak c then [rev cur] else [rev (c # cur)])"
| "splitlines_from cur (c # d # cs) =
     (if c = CHR 0x0D \<and> d = CHR 0x0A then rev cur # splitlines_from [] cs
      else if is_linebreak c then rev cur # splitlines_from [] (d # cs)
      else splitlines_from (c # cur) (d # cs))"

definition splitlines :: "string \<Rightarrow> string list" where
  "splitlines s = splitlines_from [] s"


text \<open>
  \<^verbatim>\<open>os.path.join(a, b)\<close> of \<^verbatim>\<open>posixpath\<close>: an absolute \<open>b\<close> replaces \<open>a\<close>; otherwise
  \<open>b\<close> is appended, after a separator unless \<open>a\<close> is empty or ends in one.
\<close>

definition path_join :: "string \<Rightarrow> string \<Rightarrow> string" where
  "path_join a b =
     (if b \<noteq> [] \<and> hd b = CHR ''/'' then b
      else if a = [] \<or> last a = CHR ''/'' then a @ b
      else a @ ''/'' @ b)"




section \<open>The edit buffer\<close>

text \<open>
  The buffer belongs to the line editor; the module uses two attributes and three
  methods of it. The attributes are plain fields here: the editor's setters also keep the
  cursor within the text, which the module's own assignment of the length establishes.
  \<^verbatim>\<open>document.current_line_before_cursor\<close> is the text from the last newline before the
  cursor up to the cursor.
\<close>

definition current_line_before_cursor :: "world \<Rightarrow> string" where
  "current_line_before_cursor w =
     rev (takeWhile (\<lambda>x. x \<noteq> CHR 0x0A) (rev (take (cursor_position w) (buffer_text w))))"

definition set_text :: "string \<Rightarrow> world \<Rightarrow> world" where
  "set_text s w = emit (SetText s) (w\<lparr>buffer_text := s\<rparr>)"

definition set_cursor_position :: "nat \<Rightarrow> world \<Rightarrow> world" where
  "set_cursor_position n w = emit (SetCursor n) (w\<lparr>cursor_position := n\<rparr>)"

text \<open>\<^verbatim>\<open>delete_before_cursor(count)\<close>, for a count that does not exceed the cursor.\<close>

definition delete_before_cursor :: "nat \<Rightarrow> world \<Rightarrow> world" where
  "delete_before_cursor n w =
     emit (DeleteBeforeCursor n)
       (w\<lparr>buffer_text :=
            take (cursor_position w - n) (buffer_text w) @ drop (cursor_position w) (buffer_text w),
          cursor_position := cursor_position w - n\<rparr>)"

text \<open>\<^verbatim>\<open>insert_text(data)\<close>: inserted at the cursor, which moves behind it.\<close>

definition insert_text :: "string \<Rightarrow> world \<Rightarrow> world" where
  "insert_text s w =
     emit (InsertText s)
       (w\<lparr>buffer_text :=
            take (cursor_position w) (buffer_text w) @ s @ drop (cursor_position w) (buffer_text w),
          cursor_position := cursor_position w + length s\<rparr>)"

text \<open>\<^verbatim>\<open>event.cli.renderer.erase()\<close>\<close>

definition renderer_erase :: "world \<Rightarrow> world" where
  "renderer_erase w = emit Erase w"

text \<open>\<^verbatim>\<open>os.chdir(p)\<close>\<close>

definition chdir :: "string \<Rightarrow> world \<Rightarrow> world" where
  "chdir p w = emit (Chdir p) (w\<lparr>os_cwd := p\<rparr>)"

section \<open>Binary resolution\<close>

text \<open>\<^verbatim>\<open>def _run(*args): return subproc_captured_stdout(args)\<close>\<close>

definition run_captured :: "host \<Rightarrow> string list \<Rightarrow> world \<Rightarrow> string \<times> world" where
  "run_captured h args w = (captured_stdout h args, emit (Captured args) w)"

text \<open>
  \<^verbatim>\<open>
  def get_fzf_binary_name():
      fzf_tmux_cmd = "fzf-tmux"
      if "TMUX" in XSH.env and _run("which", "fzf_tmux_cmd"):
          return fzf_tmux_cmd
      return "fzf"
  \<close>
  The second argument of \<^verbatim>\<open>_run\<close> is the string literal \<^verbatim>\<open>"fzf_tmux_cmd"\<close>, not the
  variable of that name. \<^verbatim>\<open>and\<close> does not evaluate its right operand when the left one
  is false.
\<close>

definition get_fzf_binary_name :: "host \<Rightarrow> world \<Rightarrow> string \<times> world" where
  "get_fzf_binary_name h w =
     (let fzf_tmux_cmd = ''fzf-tmux'' in
      if ''TMUX'' \<in> dom (xsh_env w) then
        (case run_captured h [''which'', ''fzf_tmux_cmd''] w of
           (out, w1) \<Rightarrow> if out \<noteq> [] then (fzf_tmux_cmd, w1) else (''fzf'', w1))
      else (''fzf'', w))"

text \<open>
  \<^verbatim>\<open>
  def get_fzf_binary_path():
      path = _run("which", get_fzf_binary_name())
      if not path:
          raise Exception("Could not determine path of fzf using `which`; ...")
      return path
  \<close>
\<close>

definition not_found_msg :: string where
  "not_found_msg =
     ''Could not determine path of fzf using `which`; maybe it is not installed or not on PATH?''"

definition get_fzf_binary_path :: "host \<Rightarrow> world \<Rightarrow> (error + string) \<times> world" where
  "get_fzf_binary_path h w =
     (case get_fzf_binary_name h w of
        (name, w1) \<Rightarrow>
          (case run_captured h [''which'', name] w1 of
             (path, w2) \<Rightarrow>
               if path = [] then (Inl (Exception not_found_msg), w2) else (Inr path, w2)))"

section \<open>Streaming mode\<close>

text \<open>
  \<^verbatim>\<open>
  def get_fzf_proc(event):
      popen_args = [get_fzf_binary_path(), "--read0", "--tac", "--tiebreak=index", "+m",
                    "--reverse", "--height=40%", "--bind=ctrl-r:toggle-sort"]
      if len(event.current_buffer.text) > 0:
          popen_args.append(f"-q ^{event.current_buffer.text}")
      return subprocess.Popen(popen_args, stdin=subprocess.PIPE, stdout=subprocess.PIPE,
                              universal_newlines=True)
  \<close>
  The child's pipes are not values of the model: what is written to its input is in the
  trace, what it prints is \<open>finder_stdout\<close>.
\<close>

definition popen_args :: "string \<Rightarrow> string \<Rightarrow> string list" where
  "popen_args path text =
     [path, ''--read0'', ''--tac'', ''--tiebreak=index'', ''+m'', ''--reverse'', ''--height=40%'',
      ''--bind=ctrl-r:toggle-sort'']
     @ (if length text > 0 then [''-q ^'' @ text] else [])"

definition get_fzf_proc :: "host \<Rightarrow> world \<Rightarrow> (error + unit) \<times> world" where
  "get_fzf_proc h w =
     (case get_fzf_binary_path h w of
        (Inl e, w1) \<Rightarrow> (Inl e, w1)
      | (Inr path, w1) \<Rightarrow> (Inr (), emit (Popen (popen_args path (buffer_text w1))) w1))"

text \<open>
  \<^verbatim>\<open>
  def close_fzf_proc(proc, event):
      proc.stdin.close()
      proc.wait()
      choice = proc.stdout.read().strip()
      event.cli.renderer.erase()
      if choice:
          event.current_buffer.text = choice
          event.current_buffer.cursor_position = len(choice)
  \<close>
\<close>

definition close_fzf_proc :: "host \<Rightarrow> world \<Rightarrow> world" where
  "close_fzf_proc h w =
     (let w1 = emit StdinClose w;
          w2 = emit Wait w1;
          choice = strip (finder_stdout h);
          w3 = emit StdoutRead w2;
          w4 = renderer_erase w3
      in if choice \<noteq> [] then set_cursor_position (length choice) (set_text choice w4) else w4)"

text \<open>Writing a sequence of records to the child's input, one call each.\<close>

fun write_all :: "string list \<Rightarrow> world \<Rightarrow> world" where
  "write_all [] w = w"
| "write_all (s # ss) w = write_all ss (emit (StdinWrite s) w)"

text \<open>
  \<^verbatim>\<open>
  def fzf_insert_history(event):
      proc = get_fzf_proc(event)
      history_main(args=["show", "-0", "all"], stdout=proc.stdin)
      close_fzf_proc(proc, event)
  \<close>
\<close>

definition fzf_insert_history :: "host \<Rightarrow> world \<Rightarrow> (error + unit) \<times> world" where
  "fzf_insert_history h w =
     (case get_fzf_proc h w of
        (Inl e, w1) \<Rightarrow> (Inl e, w1)
      | (Inr _, w1) \<Rightarrow> (Inr (), close_fzf_proc h (write_all (history_show h) w1)))"

text \<open>
  \<^verbatim>\<open>
      read = set()
      for entry in hist.all_items():
          cwd = entry.get("cwd")
          if cwd and (cwd not in read):
              read.add(cwd)
              proc.stdin.write(str(cwd) + "\0")
  \<close>
  An entry is a dict; \<^verbatim>\<open>entry.get("cwd")\<close> is \<open>None\<close> for a missing key, and both \<open>None\<close>
  and the empty string are false.
\<close>

fun dir_history_loop ::
  "(string \<rightharpoonup> string) list \<Rightarrow> string set \<Rightarrow> world \<Rightarrow> string set \<times> world" where
  "dir_history_loop [] read w = (read, w)"
| "dir_history_loop (entry # entries) read w =
     (case entry ''cwd'' of
        None \<Rightarrow> dir_history_loop entries read w
      | Some cwd \<Rightarrow>
          if cwd \<noteq> [] \<and> cwd \<notin> read
          then dir_history_loop entries (insert cwd read) (emit (StdinWrite (cwd @ [CHR 0x00])) w)
          else dir_history_loop entries read w)"

text \<open>
  \<^verbatim>\<open>
  def fzf_insert_dir_history(event):
      hist = XSH.history
      if hist is None:
          return
      proc = get_fzf_proc(event)
      ...
      close_fzf_proc(proc, event)
  \<close>
\<close>

definition fzf_insert_dir_history :: "host \<Rightarrow> world \<Rightarrow> (error + unit) \<times> world" where
  "fzf_insert_dir_history h w =
     (case xsh_history w of
        None \<Rightarrow> (Inr (), w)
      | Some entries \<Rightarrow>
          (case get_fzf_proc h w of
             (Inl e, w1) \<Rightarrow> (Inl e, w1)
           | (Inr _, w1) \<Rightarrow> (Inr (), close_fzf_proc h (snd (dir_history_loop entries {} w1)))))"

section \<open>Command mode\<close>

text \<open>
  \<^verbatim>\<open>
      before_cursor = event.current_buffer.document.current_line_before_cursor
      delim_pos = before_cursor.rfind(" ", 0, len(before_cursor))
      prefix = None
      if delim_pos != -1 and delim_pos != len(before_cursor) - 1:
          prefix = before_cursor[delim_pos + 1 :]
  \<close>
\<close>

definition line_prefix :: "string \<Rightarrow> string option" where
  "line_prefix before_cursor =
     (let delim_pos = rfind before_cursor CHR '' '' in
      if delim_pos \<noteq> - 1 \<and> delim_pos \<noteq> int (length before_cursor) - 1
      then Some (drop (nat (delim_pos + 1)) before_cursor)
      else None)"

text \<open>
  \<^verbatim>\<open>
      cwd = None
      path = ""
      if prefix:
          paths = complete_path(os.path.normpath(prefix), before_cursor, 0,
                                len(before_cursor), None)[0]
          if len(paths) == 1:
              path = paths.pop()
              expanded_path = os.path.expanduser(path)
              if os.path.isdir(expanded_path):
                  cwd = os.getcwd()
                  os.chdir(expanded_path)
  \<close>
  The result is the pair of \<^verbatim>\<open>cwd\<close> and \<^verbatim>\<open>path\<close>, and the world after the change of
  directory.
\<close>

definition enter_completed_dir ::
  "host \<Rightarrow> string option \<Rightarrow> string \<Rightarrow> world \<Rightarrow> (string option \<times> string) \<times> world" where
  "enter_completed_dir h prefix before_cursor w =
     (case prefix of
        None \<Rightarrow> ((None, []), w)
      | Some p \<Rightarrow>
          if p = [] then ((None, []), w)
          else
            (case complete_path h (normpath h p) before_cursor 0 (length before_cursor) of
               [path] \<Rightarrow>
                 (let expanded_path = expanduser h path in
                  if isdir h expanded_path
                  then ((Some (os_cwd w), path), chdir expanded_path w)
                  else ((None, path), w))
             | _ \<Rightarrow> ((None, []), w)))"

text \<open>
  \<^verbatim>\<open>
      env = os.environ
      if dirs_only:
          if "fzf_find_dirs_command" in XSH.env:
              env["FZF_DEFAULT_COMMAND"] = XSH.env["fzf_find_dirs_command"]
      else:
          if "fzf_find_command" in XSH.env:
              env["FZF_DEFAULT_COMMAND"] = XSH.env["fzf_find_command"]
      if "FZF_DEFAULT_OPTS" in XSH.env:
          env["FZF_DEFAULT_OPTS"] = XSH.env["FZF_DEFAULT_OPTS"]
  \<close>
  \<^verbatim>\<open>env = os.environ\<close> binds a second name to the one mapping object: every assignment
  through \<^verbatim>\<open>env\<close> is an assignment to \<^verbatim>\<open>os.environ\<close>, so the model updates \<open>os_environ\<close>.
\<close>

definition copy_setting :: "string \<Rightarrow> string \<Rightarrow> world \<Rightarrow> world" where
  "copy_setting src dst w =
     (case xsh_env w src of
        None \<Rightarrow> w
      | Some v \<Rightarrow> w\<lparr>os_environ := (os_environ w)(dst \<mapsto> v)\<rparr>)"

definition set_finder_env :: "bool \<Rightarrow> world \<Rightarrow> world" where
  "set_finder_env dirs_only w =
     (let w1 = (if dirs_only then copy_setting ''fzf_find_dirs_command'' ''FZF_DEFAULT_COMMAND'' w
                else copy_setting ''fzf_find_command'' ''FZF_DEFAULT_COMMAND'' w)
      in copy_setting ''FZF_DEFAULT_OPTS'' ''FZF_DEFAULT_OPTS'' w1)"

text \<open>
  \<^verbatim>\<open>
          command = ""
          for c in choice.splitlines():
              command += "'" + os.path.join(path, c.strip()) + "' "
  \<close>
\<close>

fun quote_choices :: "string \<Rightarrow> string list \<Rightarrow> string \<Rightarrow> string" where
  "quote_choices path [] command = command"
| "quote_choices path (c # cs) command =
     quote_choices path cs (command @ [CHR 0x27] @ path_join path (strip c) @ [CHR 0x27] @ '' '')"

text \<open>\<^verbatim>\<open>if cwd: os.chdir(cwd)\<close>, where \<^verbatim>\<open>cwd\<close> is \<open>None\<close> or what \<^verbatim>\<open>os.getcwd()\<close> returned.\<close>

definition restore_cwd :: "string option \<Rightarrow> world \<Rightarrow> world" where
  "restore_cwd cwd w =
     (case cwd of
        None \<Rightarrow> w
      | Some d \<Rightarrow> if d \<noteq> [] then chdir d w else w)"

text \<open>
  \<^verbatim>\<open>
      if choice:
          if path:
              event.current_buffer.delete_before_cursor(len(prefix))
          command = ""
          for c in choice.splitlines():
              command += "'" + os.path.join(path, c.strip()) + "' "
          event.current_buffer.insert_text(command.strip())
  \<close>
  \<^verbatim>\<open>len(prefix)\<close> raises \<^verbatim>\<open>TypeError\<close> for \<open>None\<close>.
\<close>

definition insert_file_choice ::
  "string option \<Rightarrow> string \<Rightarrow> string \<Rightarrow> world \<Rightarrow> (error + unit) \<times> world" where
  "insert_file_choice prefix path choice w =
     (if choice \<noteq> [] then
        (if path \<noteq> [] then
           (case prefix of
              None \<Rightarrow> (Inl TypeError, w)
            | Some p \<Rightarrow>
                (Inr (), insert_text (strip (quote_choices path (splitlines choice) []))
                           (delete_before_cursor (length p) w)))
         else (Inr (), insert_text (strip (quote_choices path (splitlines choice) [])) w))
      else (Inr (), w))"

text \<open>
  \<^verbatim>\<open>
  def fzf_insert_file(event, dirs_only=False):
      before_cursor = event.current_buffer.document.current_line_before_cursor
      ... prefix, cwd, path, env as above ...
      choice = subprocess.run([get_fzf_binary_path(), "-m", "--reverse", "--height=40%"],
                              stdout=subprocess.PIPE, universal_newlines=True,
                              env=env).stdout.strip()
      if cwd:
          os.chdir(cwd)
      event.cli.renderer.erase()
      if choice:
          ...
  \<close>
  The argument list is built, and so the binary resolved, before the child is spawned
  and after the environment has been written.
\<close>

definition fzf_insert_file :: "host \<Rightarrow> bool \<Rightarrow> world \<Rightarrow> (error + unit) \<times> world" where
  "fzf_insert_file h dirs_only w =
     (let before_cursor = current_line_before_cursor w;
          prefix = line_prefix before_cursor
      in case enter_completed_dir h prefix before_cursor w of
        ((cwd, path), w1) \<Rightarrow>
          (let w2 = set_finder_env dirs_only w1 in
           case get_fzf_binary_path h w2 of
             (Inl e, w3) \<Rightarrow> (Inl e, w3)
           | (Inr bin, w3) \<Rightarrow>
               (let w4 = emit (SubprocessRun [bin, ''-m'', ''--reverse'', ''--height=40%''] None
                                 (os_environ w3) (os_cwd w3)) w3;
                    choice = strip (finder_stdout h);
                    w5 = restore_cwd cwd w4;
                    w6 = renderer_erase w5
                in insert_file_choice prefix path choice w6)))"


section \<open>The keybinding actions\<close>

type_synonym action = "host \<Rightarrow> world \<Rightarrow> (error + unit) \<times> world"





definition fzf_dir_history :: action where
  "fzf_dir_history h w = fzf_insert_dir_history h w"



section \<open>Vocabulary of the properties\<close>

text \<open>The events an action has added to the trace.\<close>

definition new_events :: "world \<Rightarrow> world \<Rightarrow> event list" where
  "new_events w w' = drop (length (trace w)) (trace w')"

text \<open>
  The events of binary resolution: one lookup for the name if \<^verbatim>\<open>TMUX\<close> is set, one for
  the path. \<open>finder_path\<close> is what the second lookup prints.
\<close>

definition name_events :: "world \<Rightarrow> event list" where
  "name_events w =
     (if ''TMUX'' \<in> dom (xsh_env w) then [Captured [''which'', ''fzf_tmux_cmd'']] else [])"

definition finder_path :: "host \<Rightarrow> world \<Rightarrow> string" where
  "finder_path h w = captured_stdout h [''which'', fst (get_fzf_binary_name h w)]"

definition path_events :: "host \<Rightarrow> world \<Rightarrow> event list" where
  "path_events h w = name_events w @ [Captured [''which'', fst (get_fzf_binary_name h w)]]"



fun is_spawn :: "event \<Rightarrow> bool" where
  "is_spawn (Popen _) = True"
| "is_spawn (SubprocessRun _ _ _ _) = True"
| "is_spawn _ = False"

fun is_buffer_write :: "event \<Rightarrow> bool" where
  "is_buffer_write (SetText _) = True"
| "is_buffer_write (SetCursor _) = True"
| "is_buffer_write (DeleteBeforeCursor _) = True"
| "is_buffer_write (InsertText _) = True"
| "is_buffer_write _ = False"

text \<open>The records written to the child's input, one per call of \<^verbatim>\<open>write\<close>.\<close>

fun stdin_writes :: "event list \<Rightarrow> string list" where
  "stdin_writes [] = []"
| "stdin_writes (StdinWrite s # evs) = s # stdin_writes evs"
| "stdin_writes (_ # evs) = stdin_writes evs"

text \<open>
  The working-directory values of a history: the \<^verbatim>\<open>cwd\<close> of each entry that has one
  (a missing or empty \<^verbatim>\<open>cwd\<close> is no working directory), in the order of the entries.
\<close>

fun cwd_values :: "(string \<rightharpoonup> string) list \<Rightarrow> string list" where
  "cwd_values [] = []"
| "cwd_values (entry # entries) =
     (case entry ''cwd'' of
        None \<Rightarrow> cwd_values entries
      | Some cwd \<Rightarrow> if cwd = [] then cwd_values entries else cwd # cwd_values entries)"

text \<open>
  The elements of a list at their first occurrence, in order: position \<open>i\<close> is kept when
  its element does not occur before it.
\<close>

definition first_occurrences :: "'a list \<Rightarrow> 'a list" where
  "first_occurrences xs =
     map (\<lambda>i. xs ! i) (filter (\<lambda>i. xs ! i \<notin> set (take i xs)) [0..<length xs])"

text \<open>The same, skipping what a given set already holds.\<close>

fun unseen :: "'a set \<Rightarrow> 'a list \<Rightarrow> 'a list" where
  "unseen seen [] = []"
| "unseen seen (x # xs) = (if x \<in> seen then unseen seen xs else x # unseen (insert x seen) xs)"

text \<open>
  The word before the cursor: the text of the current line after its last space, the
  whole line when it has no space.
\<close>

definition word_before_cursor :: "world \<Rightarrow> string" where
  "word_before_cursor w =
     rev (takeWhile (\<lambda>x. x \<noteq> CHR '' '') (rev (current_line_before_cursor w)))"




text \<open>
  The directories changed to, the directories the children of \<^verbatim>\<open>subprocess.run\<close> start
  in, and what their environment holds under a key.
\<close>

fun chdirs :: "event list \<Rightarrow> string list" where
  "chdirs [] = []"
| "chdirs (Chdir p # evs) = p # chdirs evs"
| "chdirs (_ # evs) = chdirs evs"

fun spawn_dirs :: "event list \<Rightarrow> string list" where
  "spawn_dirs [] = []"
| "spawn_dirs (SubprocessRun _ _ _ dir # evs) = dir # spawn_dirs evs"
| "spawn_dirs (_ # evs) = spawn_dirs evs"

fun child_env_values :: "string \<Rightarrow> event list \<Rightarrow> string option list" where
  "child_env_values key [] = []"
| "child_env_values key (SubprocessRun _ _ env _ # evs) = env key # child_env_values key evs"
| "child_env_values key (_ # evs) = child_env_values key evs"



definition file_command :: "host \<Rightarrow> string \<Rightarrow> string" where
  "file_command h path = strip (quote_choices path (splitlines (strip (finder_stdout h))) [])"

section \<open>A concrete session\<close>

text \<open>
  A shell outside a multiplexer with \<^verbatim>\<open>fzf\<close> installed, three history entries, the edit
  buffer holding \<^verbatim>\<open>cat fo\<close> with the cursor at its end, and one completion \<^verbatim>\<open>foo/\<close> of
  \<^verbatim>\<open>fo\<close>, a directory. The user picks \<^verbatim>\<open>/b\<close>.
\<close>

definition demo_host :: host where
  "demo_host =
     \<lparr>captured_stdout = (\<lambda>args. if args = [''which'', ''fzf''] then ''/usr/bin/fzf'' else []),
      finder_stdout = ''/b'' @ [CHR 0x0A],
      history_show = [''ls'' @ [CHR 0x00], ''cd /b'' @ [CHR 0x00]],
      complete_path = (\<lambda>p line b e. if p = ''fo'' then [''foo/''] else []),
      normpath = (\<lambda>p. p),
      expanduser = (\<lambda>p. p),
      isdir = (\<lambda>p. p = ''foo/'')\<rparr>"

definition demo_world :: world where
  "demo_world =
     \<lparr>xsh_env = [''fzf_history_binding'' \<mapsto> ''c-r'', ''fzf_find_dirs_command'' \<mapsto> ''fd -t d''],
      xsh_history = Some [[''cwd'' \<mapsto> ''/a''], [''cwd'' \<mapsto> ''/b''], [''cwd'' \<mapsto> ''/a'']],
      os_environ = [''HOME'' \<mapsto> ''/home/u''],
      os_cwd = ''/home/u'',
      buffer_text = ''cat fo'',
      cursor_position = 6,
      trace = []\<rparr>"


text \<open>The same session with the buffer holding \<^verbatim>\<open>fo\<close> alone, the cursor at its end.\<close>

definition no_space_world :: world where
  "no_space_world = demo_world\<lparr>buffer_text := ''fo'', cursor_position := 2\<rparr>"

text \<open>
  The same session inside a multiplexer, with both \<^verbatim>\<open>fzf\<close> and \<^verbatim>\<open>fzf-tmux\<close> installed
  (and no executable called \<^verbatim>\<open>fzf_tmux_cmd\<close>).
\<close>

definition tmux_host :: host where
  "tmux_host =
     demo_host\<lparr>captured_stdout :=
       (\<lambda>args. if args = [''which'', ''fzf-tmux''] then ''/usr/bin/fzf-tmux''
               else if args = [''which'', ''fzf''] then ''/usr/bin/fzf'' else [])\<rparr>"

definition tmux_world :: world where
  "tmux_world = demo_world\<lparr>xsh_env := (xsh_env demo_world)(''TMUX'' \<mapsto> ''/tmp/tmux-1000/default,42,0'')\<rparr>"

section \<open>What each function returns and leaves behind\<close>

lemma get_fzf_binary_name_fst:
  "fst (get_fzf_binary_name h w) =
     (if ''TMUX'' \<in> dom (xsh_env w) \<and> captured_stdout h [''which'', ''fzf_tmux_cmd''] \<noteq> []
      then ''fzf-tmux'' else ''fzf'')"
  by (simp add: get_fzf_binary_name_def run_captured_def)

lemma get_fzf_binary_name_snd:
  "snd (get_fzf_binary_name h w) = w\<lparr>trace := trace w @ name_events w\<rparr>"
  by (simp add: get_fzf_binary_name_def run_captured_def name_events_def emit_def)

lemma get_fzf_binary_path_fst:
  "fst (get_fzf_binary_path h w) =
     (if finder_path h w = [] then Inl (Exception not_found_msg) else Inr (finder_path h w))"
  by (simp add: get_fzf_binary_path_def finder_path_def run_captured_def case_prod_beta)

lemma get_fzf_binary_path_snd:
  "snd (get_fzf_binary_path h w) = w\<lparr>trace := trace w @ path_events h w\<rparr>"
  by (simp add: get_fzf_binary_path_def path_events_def run_captured_def emit_def
      case_prod_beta get_fzf_binary_name_snd)

text \<open>Resolution reads \<^verbatim>\<open>XSH.env\<close> and nothing else of the world.\<close>

lemma finder_path_cong:
  "xsh_env w' = xsh_env w \<Longrightarrow> finder_path h w' = finder_path h w"
  by (simp add: finder_path_def get_fzf_binary_name_fst)

lemma path_events_cong:
  "xsh_env w' = xsh_env w \<Longrightarrow> path_events h w' = path_events h w"
  by (simp add: path_events_def name_events_def get_fzf_binary_name_fst)

lemma get_fzf_proc_fst:
  "fst (get_fzf_proc h w) =
     (if finder_path h w = [] then Inl (Exception not_found_msg) else Inr ())"
  by (simp add: get_fzf_proc_def case_prod_beta get_fzf_binary_path_fst
      split: sum.splits prod.splits)

lemma get_fzf_proc_snd:
  "snd (get_fzf_proc h w) =
     w\<lparr>trace := trace w @ path_events h w @
        (if finder_path h w = [] then []
         else [Popen (popen_args (finder_path h w) (buffer_text w))])\<rparr>"
  using get_fzf_binary_path_fst [of h w] get_fzf_binary_path_snd [of h w]
  by (cases "get_fzf_binary_path h w")
     (auto simp: get_fzf_proc_def emit_def split: sum.splits if_splits)

lemma write_all_eq: "write_all ss w = w\<lparr>trace := trace w @ map StdinWrite ss\<rparr>"
  by (induction ss arbitrary: w) (simp_all add: emit_def)

lemma dir_history_loop_snd:
  "snd (dir_history_loop entries read w) =
     w\<lparr>trace := trace w
          @ map (\<lambda>d. StdinWrite (d @ [CHR 0x00])) (unseen read (cwd_values entries))\<rparr>"
  by (induction entries arbitrary: read w) (simp_all add: emit_def split: option.splits)

lemma close_fzf_proc_eq:
  "close_fzf_proc h w =
     (if strip (finder_stdout h) = []
      then w\<lparr>trace := trace w @ [StdinClose, Wait, StdoutRead, Erase]\<rparr>
      else w\<lparr>trace := trace w @ [StdinClose, Wait, StdoutRead, Erase,
                  SetText (strip (finder_stdout h)), SetCursor (length (strip (finder_stdout h)))],
             buffer_text := strip (finder_stdout h),
             cursor_position := length (strip (finder_stdout h))\<rparr>)"
  by (simp add: close_fzf_proc_def Let_def emit_def renderer_erase_def set_text_def
      set_cursor_position_def)


lemma fzf_insert_history_snd:
  "snd (fzf_insert_history h w) =
     (if finder_path h w = [] then w\<lparr>trace := trace w @ path_events h w\<rparr>
      else close_fzf_proc h
             (w\<lparr>trace := trace w @ path_events h w
                   @ [Popen (popen_args (finder_path h w) (buffer_text w))]
                   @ map StdinWrite (history_show h)\<rparr>))"
  using get_fzf_proc_fst [of h w] get_fzf_proc_snd [of h w]
  by (cases "get_fzf_proc h w")
     (auto simp: fzf_insert_history_def write_all_eq split: sum.splits if_splits)


lemma fzf_insert_dir_history_snd:
  "snd (fzf_insert_dir_history h w) =
     (case xsh_history w of
        None \<Rightarrow> w
      | Some entries \<Rightarrow>
          if finder_path h w = [] then w\<lparr>trace := trace w @ path_events h w\<rparr>
          else close_fzf_proc h
                 (w\<lparr>trace := trace w @ path_events h w
                       @ [Popen (popen_args (finder_path h w) (buffer_text w))]
                       @ map (\<lambda>d. StdinWrite (d @ [CHR 0x00]))
                           (unseen {} (cwd_values entries))\<rparr>))"
  using get_fzf_proc_fst [of h w] get_fzf_proc_snd [of h w]
  by (cases "get_fzf_proc h w")
     (auto simp: fzf_insert_dir_history_def dir_history_loop_snd
           split: sum.splits if_splits option.splits)

lemma demo_finder_path: "finder_path demo_host demo_world = ''/usr/bin/fzf''"
  by (simp add: finder_path_def get_fzf_binary_name_fst demo_host_def demo_world_def)

section \<open>The events of each action\<close>

lemma new_events_append: "trace w' = trace w @ evs \<Longrightarrow> new_events w w' = evs"
  by (simp add: new_events_def)





lemma new_events_self: "new_events w w = []"
  by (simp add: new_events_def)







lemma close_fzf_proc_events:
  "trace w1 = trace w @ evs \<Longrightarrow>
   new_events w (close_fzf_proc h w1) =
     evs @ [StdinClose, Wait, StdoutRead, Erase] @
       (if strip (finder_stdout h) = [] then []
        else [SetText (strip (finder_stdout h)), SetCursor (length (strip (finder_stdout h)))])"
  by (simp add: new_events_def close_fzf_proc_eq)

lemma fzf_insert_history_events:
  "new_events w (snd (fzf_insert_history h w)) =
     path_events h w @
     (if finder_path h w = [] then []
      else Popen (popen_args (finder_path h w) (buffer_text w)) # map StdinWrite (history_show h)
           @ [StdinClose, Wait, StdoutRead, Erase] @
           (if strip (finder_stdout h) = [] then []
            else [SetText (strip (finder_stdout h)), SetCursor (length (strip (finder_stdout h)))]))"
  by (simp add: fzf_insert_history_snd close_fzf_proc_events new_events_append)

lemma fzf_insert_dir_history_events:
  "new_events w (snd (fzf_insert_dir_history h w)) =
     (case xsh_history w of
        None \<Rightarrow> []
      | Some entries \<Rightarrow>
         path_events h w @
         (if finder_path h w = [] then []
          else Popen (popen_args (finder_path h w) (buffer_text w))
               # map (\<lambda>d. StdinWrite (d @ [CHR 0x00])) (unseen {} (cwd_values entries))
               @ [StdinClose, Wait, StdoutRead, Erase] @
               (if strip (finder_stdout h) = [] then []
                else [SetText (strip (finder_stdout h)), SetCursor (length (strip (finder_stdout h)))])))"
  by (simp add: fzf_insert_dir_history_snd close_fzf_proc_events new_events_append new_events_self
      split: option.splits)











lemma get_fzf_binary_path_eq:
  "get_fzf_binary_path h w =
     (if finder_path h w = [] then Inl (Exception not_found_msg) else Inr (finder_path h w),
      w\<lparr>trace := trace w @ path_events h w\<rparr>)"
  by (simp add: prod_eq_iff get_fzf_binary_path_fst get_fzf_binary_path_snd)

text \<open>Entering the completed directory: either nothing happens, or one change of directory.\<close>

lemma enter_completed_dir_None:
  "enter_completed_dir h prefix line w = ((None, path), w') \<Longrightarrow> w' = w"
  by (auto simp: enter_completed_dir_def Let_def split: option.splits list.splits if_splits)

lemma enter_completed_dir_Some:
  "enter_completed_dir h prefix line w = ((Some c, path), w') \<Longrightarrow>
     c = os_cwd w \<and>
     w' = w\<lparr>os_cwd := expanduser h path, trace := trace w @ [Chdir (expanduser h path)]\<rparr>"
  by (auto simp: enter_completed_dir_def Let_def chdir_def emit_def
      split: option.splits list.splits if_splits)

lemma enter_completed_dir_frame:
  assumes "enter_completed_dir h prefix line w = ((cwd, path), w')"
  shows "xsh_env w' = xsh_env w \<and> os_environ w' = os_environ w \<and>
         buffer_text w' = buffer_text w \<and> cursor_position w' = cursor_position w"
proof (cases cwd)
  case None
  with assms have "w' = w" by (simp add: enter_completed_dir_None)
  then show ?thesis by simp
next
  case (Some c)
  with assms show ?thesis by (auto dest: enter_completed_dir_Some)
qed

lemma set_finder_env_eq:
  "set_finder_env d w = w\<lparr>os_environ := os_environ (set_finder_env d w)\<rparr>"
  by (simp add: set_finder_env_def copy_setting_def Let_def split: option.splits)

lemma set_finder_env_cong:
  "xsh_env w' = xsh_env w \<Longrightarrow> os_environ w' = os_environ w \<Longrightarrow>
   os_environ (set_finder_env d w') = os_environ (set_finder_env d w)"
  by (simp add: set_finder_env_def copy_setting_def Let_def split: option.splits)

lemma insert_file_choice_fst:
  "path \<noteq> [] \<longrightarrow> prefix \<noteq> None \<Longrightarrow> fst (insert_file_choice prefix path choice w) = Inr ()"
  by (auto simp: insert_file_choice_def split: option.splits)

lemma insert_file_choice_trace:
  "\<exists>post. list_all is_buffer_write post \<and>
          trace (snd (insert_file_choice prefix path choice w)) = trace w @ post"
  by (auto simp: insert_file_choice_def insert_text_def delete_before_cursor_def emit_def
      split: option.splits)

lemma insert_file_choice_frame:
  "os_cwd (snd (insert_file_choice prefix path choice w)) = os_cwd w \<and>
   os_environ (snd (insert_file_choice prefix path choice w)) = os_environ w"
  by (auto simp: insert_file_choice_def insert_text_def delete_before_cursor_def emit_def
      split: option.splits)

lemma fzf_insert_file_eq:
  assumes e: "enter_completed_dir h (line_prefix (current_line_before_cursor w))
                (current_line_before_cursor w) w = ((cwd, path), w1)"
  shows "fzf_insert_file h d w =
     (if finder_path h w = []
      then (Inl (Exception not_found_msg),
            w1\<lparr>os_environ := os_environ (set_finder_env d w),
               trace := trace w1 @ path_events h w\<rparr>)
      else insert_file_choice (line_prefix (current_line_before_cursor w)) path
             (strip (finder_stdout h))
             (renderer_erase (restore_cwd cwd
                (w1\<lparr>os_environ := os_environ (set_finder_env d w),
                    trace := trace w1 @ path_events h w @
                      [SubprocessRun [finder_path h w, ''-m'', ''--reverse'', ''--height=40%'']
                         None (os_environ (set_finder_env d w)) (os_cwd w1)]\<rparr>))))"
proof -
  have x: "xsh_env w1 = xsh_env w" "os_environ w1 = os_environ w"
    using enter_completed_dir_frame [OF e] by simp_all
  let ?w2 = "set_finder_env d w1"
  have w2: "?w2 = w1\<lparr>os_environ := os_environ (set_finder_env d w)\<rparr>"
    using set_finder_env_eq [of d w1] set_finder_env_cong [OF x, of d] by simp
  have fp: "finder_path h ?w2 = finder_path h w"
    by (rule finder_path_cong) (simp add: w2 x)
  have pe: "path_events h ?w2 = path_events h w"
    by (rule path_events_cong) (simp add: w2 x)
  have g: "get_fzf_binary_path h ?w2 =
     (if finder_path h w = [] then Inl (Exception not_found_msg) else Inr (finder_path h w),
      w1\<lparr>os_environ := os_environ (set_finder_env d w), trace := trace w1 @ path_events h w\<rparr>)"
    unfolding get_fzf_binary_path_eq [of h ?w2] fp pe by (simp add: w2)
  show ?thesis
    unfolding fzf_insert_file_def Let_def e prod.case g
    by (simp add: emit_def)
qed


lemma enter_completed_dir_guard:
  assumes "enter_completed_dir h prefix line w = ((cwd, path), w1)"
  shows "path \<noteq> [] \<longrightarrow> prefix \<noteq> None"
  using assms by (cases prefix) (simp_all add: enter_completed_dir_def)

lemma fzf_insert_file_fst:
  "fst (fzf_insert_file h d w) =
     (if finder_path h w = [] then Inl (Exception not_found_msg) else Inr ())"
proof -
  obtain cwd path w1 where
    e: "enter_completed_dir h (line_prefix (current_line_before_cursor w))
          (current_line_before_cursor w) w = ((cwd, path), w1)"
    by (metis prod.exhaust)
  show ?thesis
    by (simp add: fzf_insert_file_eq [OF e]
        insert_file_choice_fst [OF enter_completed_dir_guard [OF e]])
qed

lemma fzf_insert_file_events:
  assumes e: "enter_completed_dir h (line_prefix (current_line_before_cursor w))
                (current_line_before_cursor w) w = ((cwd, path), w1)"
  shows "\<exists>post. list_all is_buffer_write post \<and>
     new_events w (snd (fzf_insert_file h d w)) =
       (case cwd of None \<Rightarrow> [] | Some c \<Rightarrow> [Chdir (expanduser h path)]) @ path_events h w @
       (if finder_path h w = [] then []
        else SubprocessRun [finder_path h w, ''-m'', ''--reverse'', ''--height=40%''] None
               (os_environ (set_finder_env d w))
               (case cwd of None \<Rightarrow> os_cwd w | Some c \<Rightarrow> expanduser h path)
             # (case cwd of None \<Rightarrow> []
                | Some c \<Rightarrow> if os_cwd w \<noteq> [] then [Chdir (os_cwd w)] else [])
             @ Erase # post)"
proof (cases "finder_path h w = []")
  case True
  show ?thesis
  proof (cases cwd)
    case None
    with e have "w1 = w" by (simp add: enter_completed_dir_None)
    with True None show ?thesis
      by (intro exI [of _ "[]"]) (simp add: fzf_insert_file_eq [OF e] new_events_append)
  next
    case (Some c)
    with e have "w1 = w\<lparr>os_cwd := expanduser h path, trace := trace w @ [Chdir (expanduser h path)]\<rparr>"
      by (auto dest: enter_completed_dir_Some)
    with True Some show ?thesis
      by (intro exI [of _ "[]"]) (simp add: fzf_insert_file_eq [OF e] new_events_append)
  qed
next
  case False
  let ?w6 = "renderer_erase (restore_cwd cwd
                (w1\<lparr>os_environ := os_environ (set_finder_env d w),
                    trace := trace w1 @ path_events h w @
                      [SubprocessRun [finder_path h w, ''-m'', ''--reverse'', ''--height=40%'']
                         None (os_environ (set_finder_env d w)) (os_cwd w1)]\<rparr>))"
  obtain post where post: "list_all is_buffer_write post"
    "trace (snd (insert_file_choice (line_prefix (current_line_before_cursor w)) path
        (strip (finder_stdout h)) ?w6)) = trace ?w6 @ post"
    using insert_file_choice_trace by blast
  have s: "snd (fzf_insert_file h d w) =
     snd (insert_file_choice (line_prefix (current_line_before_cursor w)) path
        (strip (finder_stdout h)) ?w6)"
    using False by (simp add: fzf_insert_file_eq [OF e])
  show ?thesis
  proof (cases cwd)
    case None
    with e have "w1 = w" by (simp add: enter_completed_dir_None)
    with False None post show ?thesis
      unfolding s
      by (intro exI [of _ post])
         (simp add: new_events_append restore_cwd_def renderer_erase_def emit_def)
  next
    case (Some c)
    with e have "c = os_cwd w"
      "w1 = w\<lparr>os_cwd := expanduser h path, trace := trace w @ [Chdir (expanduser h path)]\<rparr>"
      by (auto dest: enter_completed_dir_Some)
    with False Some post show ?thesis
      unfolding s
      by (intro exI [of _ post])
         (simp add: new_events_append restore_cwd_def renderer_erase_def emit_def chdir_def)
  qed
qed





lemma filter_spawn_path_events: "filter is_spawn (path_events h w) = []"
  by (simp add: path_events_def name_events_def)

lemma filter_spawn_writes: "filter is_spawn (map (\<lambda>d. StdinWrite (f d)) xs) = []"
  by (induction xs) simp_all

lemma first_occurrences_prefix:
  "\<forall>i \<in> set js. i < length xs \<Longrightarrow>
   map (\<lambda>i. (xs @ [x]) ! i) (filter (\<lambda>i. (xs @ [x]) ! i \<notin> set (take i (xs @ [x]))) js)
     = map (\<lambda>i. xs ! i) (filter (\<lambda>i. xs ! i \<notin> set (take i xs)) js)"
  by (induction js) (auto simp: nth_append)

lemma first_occurrences_snoc:
  "first_occurrences (xs @ [x]) = first_occurrences xs @ (if x \<in> set xs then [] else [x])"
proof -
  let ?f = "\<lambda>i. (xs @ [x]) ! i"
  let ?P = "\<lambda>i. (xs @ [x]) ! i \<notin> set (take i (xs @ [x]))"
  have len: "[0..<length (xs @ [x])] = [0..<length xs] @ [length xs]" by simp
  have 1: "first_occurrences (xs @ [x])
             = map ?f (filter ?P [0..<length xs]) @ map ?f (filter ?P [length xs])"
    unfolding first_occurrences_def len filter_append map_append by (rule refl)
  have 2: "map ?f (filter ?P [0..<length xs]) = first_occurrences xs"
    unfolding first_occurrences_def by (rule first_occurrences_prefix) simp
  have 3: "map ?f (filter ?P [length xs]) = (if x \<in> set xs then [] else [x])"
    by simp
  show ?thesis unfolding 1 2 3 by (rule refl)
qed

lemma first_occurrences_Nil: "first_occurrences [] = []"
  by (simp add: first_occurrences_def)

lemma first_occurrences_append:
  "first_occurrences (pre @ xs) = first_occurrences pre @ unseen (set pre) xs"
proof (induction xs arbitrary: pre)
  case Nil
  then show ?case by simp
next
  case (Cons x xs)
  have "first_occurrences (pre @ x # xs) = first_occurrences ((pre @ [x]) @ xs)" by simp
  also have "\<dots> = first_occurrences (pre @ [x]) @ unseen (set (pre @ [x])) xs"
    by (rule Cons.IH)
  also have "\<dots> = first_occurrences pre @ unseen (set pre) (x # xs)"
    by (simp add: first_occurrences_snoc insert_absorb)
  finally show ?case .
qed

lemma unseen_first_occurrences: "unseen {} xs = first_occurrences xs"
  using first_occurrences_append [of "[]" xs] by (simp add: first_occurrences_Nil)

lemma unseen_set: "set (unseen seen xs) = set xs - seen"
  by (induction xs arbitrary: seen) auto

lemma unseen_distinct: "distinct (unseen seen xs)"
  by (induction xs arbitrary: seen) (auto simp: unseen_set)

lemma stdin_writes_append: "stdin_writes (xs @ ys) = stdin_writes xs @ stdin_writes ys"
  by (induction xs rule: stdin_writes.induct) simp_all

lemma stdin_writes_path_events: "stdin_writes (path_events h w) = []"
  by (simp add: path_events_def name_events_def)

lemma stdin_writes_map: "stdin_writes (map (\<lambda>d. StdinWrite (f d)) xs) = map f xs"
  by (induction xs) simp_all

lemma demo_line: "current_line_before_cursor demo_world = ''cat fo''"
  by (simp add: current_line_before_cursor_def demo_world_def)

lemma demo_prefix: "line_prefix ''cat fo'' = Some ''fo''"
  by (simp add: line_prefix_def rfind_def Let_def)

lemma demo_enter:
  "enter_completed_dir demo_host (Some ''fo'') ''cat fo'' demo_world =
     ((Some ''/home/u'', ''foo/''), chdir ''foo/'' demo_world)"
  by (simp add: enter_completed_dir_def demo_host_def demo_world_def Let_def)

lemma demo_choice: "strip (finder_stdout demo_host) = ''/b''"
  by (simp add: strip_def isspace_def demo_host_def)

lemma demo_file_events:
  "new_events demo_world (snd (fzf_insert_file demo_host d demo_world)) =
     [Chdir ''foo/'', Captured [''which'', ''fzf''],
      SubprocessRun [''/usr/bin/fzf'', ''-m'', ''--reverse'', ''--height=40%''] None
        (os_environ (set_finder_env d demo_world)) ''foo/'',
      Chdir ''/home/u'', Erase, DeleteBeforeCursor 2, InsertText [CHR 0x27, CHR ''/'', CHR ''b'', CHR 0x27]]"
proof -
  have e: "enter_completed_dir demo_host (line_prefix (current_line_before_cursor demo_world))
          (current_line_before_cursor demo_world) demo_world
           = ((Some ''/home/u'', ''foo/''), chdir ''foo/'' demo_world)"
    by (simp add: demo_line demo_prefix demo_enter)
  have pe: "path_events demo_host demo_world = [Captured [''which'', ''fzf'']]"
    by (simp add: path_events_def name_events_def get_fzf_binary_name_fst demo_world_def)
  have cmd: "strip (quote_choices ''foo/'' (splitlines ''/b'') [])
               = [CHR 0x27, CHR ''/'', CHR ''b'', CHR 0x27]"
    by (simp add: splitlines_def is_linebreak_def path_join_def strip_def isspace_def)
  have t: "trace demo_world = []" "os_cwd demo_world = ''/home/u''"
    by (simp_all add: demo_world_def)
  show ?thesis
    unfolding fzf_insert_file_eq [OF e]
    by (simp add: demo_finder_path demo_choice demo_line demo_prefix pe cmd t new_events_def
        insert_file_choice_def insert_text_def delete_before_cursor_def emit_def
        renderer_erase_def restore_cwd_def chdir_def)
qed

lemma takeWhile_neq_less: "c \<in> set xs \<Longrightarrow> length (takeWhile (\<lambda>x. x \<noteq> c) xs) < length xs"
  by (induction xs) auto

lemma line_prefix_nonempty:
  assumes "line_prefix s = Some p"
  shows "p \<noteq> []"
proof -
  define k where "k = length (takeWhile (\<lambda>x. x \<noteq> CHR '' '') (rev s))"
  from assms have m: "CHR '' '' \<in> set s"
    by (auto simp: line_prefix_def rfind_def Let_def split: if_splits)
  then have k: "k < length s"
    using takeWhile_neq_less [of "CHR '' ''" "rev s"] by (simp add: k_def)
  from m have r: "rfind s CHR '' '' = int (length s - 1 - k)"
    by (simp add: rfind_def k_def)
  from assms have n: "rfind s CHR '' '' \<noteq> int (length s) - 1"
    and p: "p = drop (nat (rfind s CHR '' '' + 1)) s"
    by (auto simp: line_prefix_def Let_def split: if_splits)
  from n r k have "k \<noteq> 0" by (cases k) auto
  with r k have "nat (rfind s CHR '' '' + 1) < length s" by simp
  with p show ?thesis by simp
qed

lemma enter_completed_dir_single:
  assumes "line_prefix line = Some p"
    and "complete_path h (normpath h p) line 0 (length line) = [path]"
    and "isdir h (expanduser h path)"
  shows "enter_completed_dir h (line_prefix line) line w =
           ((Some (os_cwd w), path), chdir (expanduser h path) w)"
  using assms line_prefix_nonempty [OF assms(1)]
  by (simp add: enter_completed_dir_def Let_def)

lemma fzf_insert_file_environ:
  "os_environ (snd (fzf_insert_file h d w)) = os_environ (set_finder_env d w)"
proof -
  obtain cwd path w1 where
    e: "enter_completed_dir h (line_prefix (current_line_before_cursor w))
          (current_line_before_cursor w) w = ((cwd, path), w1)"
    by (metis prod.exhaust)
  show ?thesis
    by (cases cwd)
       (simp_all add: fzf_insert_file_eq [OF e] insert_file_choice_frame renderer_erase_def
          restore_cwd_def emit_def chdir_def)
qed

lemma fzf_insert_file_cwd:
  assumes e: "enter_completed_dir h (line_prefix (current_line_before_cursor w))
                (current_line_before_cursor w) w = ((cwd, path), w1)"
    and "finder_path h w \<noteq> []" and "os_cwd w \<noteq> []"
  shows "os_cwd (snd (fzf_insert_file h d w)) = os_cwd w"
proof (cases cwd)
  case None
  with e have "w1 = w" by (simp add: enter_completed_dir_None)
  with None assms(2) show ?thesis
    by (simp add: fzf_insert_file_eq [OF e] insert_file_choice_frame renderer_erase_def
        restore_cwd_def emit_def)
next
  case (Some c)
  with e have "c = os_cwd w" by (auto dest: enter_completed_dir_Some)
  with Some assms(2,3) show ?thesis
    by (simp add: fzf_insert_file_eq [OF e] insert_file_choice_frame renderer_erase_def
        restore_cwd_def emit_def chdir_def)
qed

lemma demo_dir_environ:
  "os_environ (snd (fzf_insert_file demo_host True demo_world))
     = [''HOME'' \<mapsto> ''/home/u'', ''FZF_DEFAULT_COMMAND'' \<mapsto> ''fd -t d'']"
  by (simp add: fzf_insert_file_environ set_finder_env_def copy_setting_def demo_world_def)

lemma insert_file_choice_xsh_env:
  "xsh_env (snd (insert_file_choice prefix path choice w)) = xsh_env w"
  by (auto simp: insert_file_choice_def insert_text_def delete_before_cursor_def emit_def
      split: option.splits)

lemma fzf_insert_file_xsh_env: "xsh_env (snd (fzf_insert_file h d w)) = xsh_env w"
proof -
  obtain cwd path w1 where
    e: "enter_completed_dir h (line_prefix (current_line_before_cursor w))
          (current_line_before_cursor w) w = ((cwd, path), w1)"
    by (metis prod.exhaust)
  show ?thesis
    using enter_completed_dir_frame [OF e]
    by (cases cwd)
       (simp_all add: fzf_insert_file_eq [OF e] insert_file_choice_xsh_env renderer_erase_def
          restore_cwd_def emit_def chdir_def)
qed

lemma child_env_values_append:
  "child_env_values key (xs @ ys) = child_env_values key xs @ child_env_values key ys"
  by (induction key xs rule: child_env_values.induct) simp_all

lemma child_env_values_writes:
  "list_all is_buffer_write post \<Longrightarrow> child_env_values key post = []"
  by (induction key post rule: child_env_values.induct) simp_all

lemma child_env_values_path_events: "child_env_values key (path_events h w) = []"
  by (simp add: path_events_def name_events_def)

lemma fzf_insert_file_child_env:
  "child_env_values key (new_events w (snd (fzf_insert_file h d w))) =
     (if finder_path h w = [] then [] else [os_environ (set_finder_env d w) key])"
proof -
  obtain cwd path w1 where
    e: "enter_completed_dir h (line_prefix (current_line_before_cursor w))
          (current_line_before_cursor w) w = ((cwd, path), w1)"
    by (metis prod.exhaust)
  obtain post where post: "list_all is_buffer_write post" and
    evs: "new_events w (snd (fzf_insert_file h d w)) =
       (case cwd of None \<Rightarrow> [] | Some c \<Rightarrow> [Chdir (expanduser h path)]) @ path_events h w @
       (if finder_path h w = [] then []
        else SubprocessRun [finder_path h w, ''-m'', ''--reverse'', ''--height=40%''] None
               (os_environ (set_finder_env d w))
               (case cwd of None \<Rightarrow> os_cwd w | Some c \<Rightarrow> expanduser h path)
             # (case cwd of None \<Rightarrow> []
                | Some c \<Rightarrow> if os_cwd w \<noteq> [] then [Chdir (os_cwd w)] else [])
             @ Erase # post)"
    using fzf_insert_file_events [OF e, of d] by blast
  show ?thesis
    unfolding evs using post
    by (cases cwd)
       (simp_all add: child_env_values_append child_env_values_path_events
          child_env_values_writes)
qed






section \<open>Cancelling and choosing in streaming mode\<close>

text \<open>
  C4. In streaming mode (the history and the directory-history action, both ending in
  \<open>close_fzf_proc\<close>), when what the child printed is empty after stripping, the text of
  the buffer and the position of the cursor are what they were. No exit code is read.
\<close>

theorem streaming_empty_output_keeps_buffer:
  assumes "strip (finder_stdout h) = []"
  shows "buffer_text (close_fzf_proc h w) = buffer_text w \<and>
         cursor_position (close_fzf_proc h w) = cursor_position w \<and>
         buffer_text (snd (fzf_insert_history h w)) = buffer_text w \<and>
         cursor_position (snd (fzf_insert_history h w)) = cursor_position w \<and>
         buffer_text (snd (fzf_insert_dir_history h w)) = buffer_text w \<and>
         cursor_position (snd (fzf_insert_dir_history h w)) = cursor_position w"
  using assms
  by (simp add: fzf_insert_history_snd fzf_insert_dir_history_snd close_fzf_proc_eq
      split: option.splits)

theorem streaming_empty_output_keeps_buffer_witness:
  "strip (finder_stdout (demo_host\<lparr>finder_stdout := [CHR 0x0A]\<rparr>)) = [] \<and>
   buffer_text (snd (fzf_insert_history (demo_host\<lparr>finder_stdout := [CHR 0x0A]\<rparr>) demo_world))
     = ''cat fo'' \<and>
   cursor_position (snd (fzf_insert_dir_history (demo_host\<lparr>finder_stdout := [CHR 0x0A]\<rparr>) demo_world))
     = 6"
proof -
  have h: "strip (finder_stdout (demo_host\<lparr>finder_stdout := [CHR 0x0A]\<rparr>)) = []"
    by (simp add: strip_def isspace_def)
  show ?thesis
    using h streaming_empty_output_keeps_buffer [OF h, of demo_world]
    by (simp add: demo_world_def)
qed

text \<open>
  C5. In streaming mode, when what the child printed is not empty after stripping (one
  record, or more), the text of the buffer becomes that stripped text and the cursor its
  length: in \<open>close_fzf_proc\<close>, and so in both actions once the finder has been resolved
  and, for the directory history, the shell has a history.
\<close>

theorem streaming_choice_replaces_buffer:
  assumes "strip (finder_stdout h) \<noteq> []"
  shows "buffer_text (close_fzf_proc h w) = strip (finder_stdout h) \<and>
         cursor_position (close_fzf_proc h w) = length (strip (finder_stdout h)) \<and>
         (finder_path h w \<noteq> [] \<longrightarrow>
            buffer_text (snd (fzf_insert_history h w)) = strip (finder_stdout h) \<and>
            cursor_position (snd (fzf_insert_history h w)) = length (strip (finder_stdout h))) \<and>
         (finder_path h w \<noteq> [] \<and> xsh_history w \<noteq> None \<longrightarrow>
            buffer_text (snd (fzf_insert_dir_history h w)) = strip (finder_stdout h) \<and>
            cursor_position (snd (fzf_insert_dir_history h w))
              = length (strip (finder_stdout h)))"
  using assms
  by (auto simp: fzf_insert_history_snd fzf_insert_dir_history_snd close_fzf_proc_eq)

theorem streaming_choice_replaces_buffer_witness:
  "strip (finder_stdout demo_host) = ''/b'' \<and>
   finder_path demo_host demo_world \<noteq> [] \<and> xsh_history demo_world \<noteq> None \<and>
   buffer_text (close_fzf_proc demo_host demo_world) = ''/b'' \<and>
   cursor_position (close_fzf_proc demo_host demo_world) = 2 \<and>
   buffer_text (snd (fzf_insert_history demo_host demo_world)) = ''/b'' \<and>
   cursor_position (snd (fzf_insert_history demo_host demo_world)) = 2 \<and>
   buffer_text (snd (fzf_insert_dir_history demo_host demo_world)) = ''/b'' \<and>
   cursor_position (snd (fzf_insert_dir_history demo_host demo_world)) = 2"
proof -
  have s: "strip (finder_stdout demo_host) = ''/b''"
    by (simp add: strip_def isspace_def demo_host_def)
  then have h: "strip (finder_stdout demo_host) \<noteq> []" by simp
  have p: "finder_path demo_host demo_world \<noteq> []" by (simp add: demo_finder_path)
  have q: "xsh_history demo_world \<noteq> None" by (simp add: demo_world_def)
  show ?thesis
    using s p q streaming_choice_replaces_buffer [OF h, of demo_world]
    by simp
qed

section \<open>A shell without history\<close>

text \<open>
  C10. When \<^verbatim>\<open>XSH.history\<close> is \<open>None\<close> the directory-history action returns at once and
  leaves the world as it was: nothing is added to the trace (no lookup of the finder, no
  child), and the buffer is untouched.
\<close>

theorem dir_history_without_history_is_noop:
  assumes "xsh_history w = None"
  shows "fzf_insert_dir_history h w = (Inr (), w) \<and> fzf_dir_history h w = (Inr (), w) \<and>
         new_events w (snd (fzf_dir_history h w)) = []"
  using assms
  by (simp add: fzf_dir_history_def fzf_insert_dir_history_def new_events_def)

theorem dir_history_without_history_is_noop_witness:
  "xsh_history (demo_world\<lparr>xsh_history := None\<rparr>) = None \<and>
   fzf_dir_history demo_host (demo_world\<lparr>xsh_history := None\<rparr>)
     = (Inr (), demo_world\<lparr>xsh_history := None\<rparr>) \<and>
   trace (snd (fzf_dir_history demo_host (demo_world\<lparr>xsh_history := None\<rparr>))) = [] \<and>
   buffer_text (snd (fzf_dir_history demo_host (demo_world\<lparr>xsh_history := None\<rparr>))) = ''cat fo''"
proof -
  have h: "xsh_history (demo_world\<lparr>xsh_history := None\<rparr>) = None" by simp
  show ?thesis
    using dir_history_without_history_is_noop [OF h, of demo_host]
    by (simp add: demo_world_def)
qed

section \<open>Redraw after the child\<close>



section \<open>The query argument\<close>

text \<open>
  C9. The streaming-mode widgets are the two built on \<open>get_fzf_proc\<close>. Once the finder
  is resolved, each spawns one child, by \<^verbatim>\<open>Popen\<close>; with a non-empty buffer text its last
  argument is the single string \<^verbatim>\<open>-q ^\<close> followed by the text, and with an empty buffer
  the argument list ends with the fixed options.
\<close>

theorem streaming_query_argument:
  assumes "finder_path h w \<noteq> []"
  shows "filter is_spawn (new_events w (snd (fzf_insert_history h w)))
           = [Popen (popen_args (finder_path h w) (buffer_text w))] \<and>
         (xsh_history w \<noteq> None \<longrightarrow>
            filter is_spawn (new_events w (snd (fzf_insert_dir_history h w)))
              = [Popen (popen_args (finder_path h w) (buffer_text w))]) \<and>
         (buffer_text w \<noteq> [] \<longrightarrow>
            popen_args (finder_path h w) (buffer_text w) =
              [finder_path h w, ''--read0'', ''--tac'', ''--tiebreak=index'', ''+m'', ''--reverse'',
               ''--height=40%'', ''--bind=ctrl-r:toggle-sort'', ''-q ^'' @ buffer_text w]) \<and>
         (buffer_text w = [] \<longrightarrow>
            popen_args (finder_path h w) (buffer_text w) =
              [finder_path h w, ''--read0'', ''--tac'', ''--tiebreak=index'', ''+m'', ''--reverse'',
               ''--height=40%'', ''--bind=ctrl-r:toggle-sort''])"
  using assms filter_spawn_writes [of "\<lambda>x. x", simplified]
  by (auto simp: fzf_insert_history_events fzf_insert_dir_history_events popen_args_def
      filter_spawn_path_events filter_spawn_writes)

theorem streaming_query_argument_witness:
  "finder_path demo_host demo_world \<noteq> [] \<and> buffer_text demo_world \<noteq> [] \<and>
   xsh_history demo_world \<noteq> None \<and>
   filter is_spawn (new_events demo_world (snd (fzf_insert_dir_history demo_host demo_world)))
     = [Popen [''/usr/bin/fzf'', ''--read0'', ''--tac'', ''--tiebreak=index'', ''+m'', ''--reverse'',
               ''--height=40%'', ''--bind=ctrl-r:toggle-sort'', ''-q ^cat fo'']] \<and>
   finder_path demo_host (demo_world\<lparr>buffer_text := []\<rparr>) \<noteq> [] \<and>
   filter is_spawn
     (new_events (demo_world\<lparr>buffer_text := []\<rparr>)
        (snd (fzf_insert_history demo_host (demo_world\<lparr>buffer_text := []\<rparr>))))
     = [Popen [''/usr/bin/fzf'', ''--read0'', ''--tac'', ''--tiebreak=index'', ''+m'', ''--reverse'',
               ''--height=40%'', ''--bind=ctrl-r:toggle-sort'']]"
proof -
  have p: "finder_path demo_host demo_world \<noteq> []" by (simp add: demo_finder_path)
  have q: "finder_path demo_host (demo_world\<lparr>buffer_text := []\<rparr>) = ''/usr/bin/fzf''"
    using finder_path_cong [of "demo_world\<lparr>buffer_text := []\<rparr>" demo_world demo_host]
    by (simp add: demo_finder_path)
  then have q': "finder_path demo_host (demo_world\<lparr>buffer_text := []\<rparr>) \<noteq> []" by simp
  have t: "buffer_text demo_world = ''cat fo''" "xsh_history demo_world \<noteq> None"
    by (simp_all add: demo_world_def)
  show ?thesis
    using streaming_query_argument [OF p] streaming_query_argument [OF q'] t q
    by (simp add: demo_finder_path)
qed

section \<open>The directory history\<close>

text \<open>
  C6. With a history and a resolved finder, the directory-history action writes to the
  child's input one record per working-directory value at its first occurrence, in that
  order, each the value followed by NUL; these values are distinct and are all the values
  of the history. For the history with \<^verbatim>\<open>/a\<close>, \<^verbatim>\<open>/b\<close>, \<^verbatim>\<open>/a\<close> the stream is
  \<^verbatim>\<open>/a\0/b\0\<close>, two records.
\<close>

theorem dir_history_writes_first_occurrences:
  assumes "xsh_history w = Some entries" and "finder_path h w \<noteq> []"
  shows "stdin_writes (new_events w (snd (fzf_insert_dir_history h w)))
           = map (\<lambda>d. d @ [CHR 0x00]) (first_occurrences (cwd_values entries)) \<and>
         distinct (first_occurrences (cwd_values entries)) \<and>
         set (first_occurrences (cwd_values entries)) = set (cwd_values entries)"
  using assms unseen_distinct [of "{}" "cwd_values entries"] unseen_set [of "{}" "cwd_values entries"]
  by (simp add: fzf_insert_dir_history_events stdin_writes_append stdin_writes_path_events
      stdin_writes_map unseen_first_occurrences)

theorem dir_history_writes_first_occurrences_witness:
  "xsh_history demo_world = Some [[''cwd'' \<mapsto> ''/a''], [''cwd'' \<mapsto> ''/b''], [''cwd'' \<mapsto> ''/a'']] \<and>
   finder_path demo_host demo_world \<noteq> [] \<and>
   concat (stdin_writes (new_events demo_world (snd (fzf_insert_dir_history demo_host demo_world))))
     = ''/a'' @ [CHR 0x00] @ ''/b'' @ [CHR 0x00] \<and>
   length (stdin_writes (new_events demo_world (snd (fzf_insert_dir_history demo_host demo_world))))
     = 2"
proof -
  have a: "xsh_history demo_world = Some [[''cwd'' \<mapsto> ''/a''], [''cwd'' \<mapsto> ''/b''], [''cwd'' \<mapsto> ''/a'']]"
    by (simp add: demo_world_def)
  have b: "finder_path demo_host demo_world \<noteq> []" by (simp add: demo_finder_path)
  have c: "first_occurrences [''/a'', ''/b'', ''/a''] = [''/a'', ''/b'']"
    by (simp add: first_occurrences_def upt_rec)
  show ?thesis
    using a b dir_history_writes_first_occurrences [OF a b]
    by (simp add: c)
qed

section \<open>Entering the completed directory\<close>

text \<open>
  C7, as the code has it. The action looks for a completion only when the line before the
  cursor holds a space followed by at least one character (\<open>line_prefix\<close>). Then, when
  that word has exactly one completion, the completion is a directory, the finder is
  resolved, and \<^verbatim>\<open>os.getcwd()\<close> is not empty: the action changes to the directory, resolves
  and runs the finder there, changes back to the original directory, erases, and only
  then writes to the buffer, whatever the child printed; the working directory at return
  is the original one.
\<close>

theorem file_insertion_enters_and_leaves_directory:
  assumes "line_prefix (current_line_before_cursor w) = Some p"
    and "complete_path h (normpath h p) (current_line_before_cursor w) 0
           (length (current_line_before_cursor w)) = [path]"
    and "isdir h (expanduser h path)"
    and "finder_path h w \<noteq> []"
    and "os_cwd w \<noteq> []"
  shows "(\<exists>post. list_all is_buffer_write post \<and>
            new_events w (snd (fzf_insert_file h d w)) =
              Chdir (expanduser h path) # path_events h w @
              [SubprocessRun [finder_path h w, ''-m'', ''--reverse'', ''--height=40%''] None
                 (os_environ (set_finder_env d w)) (expanduser h path),
               Chdir (os_cwd w), Erase] @ post) \<and>
         os_cwd (snd (fzf_insert_file h d w)) = os_cwd w"
proof -
  have e: "enter_completed_dir h (line_prefix (current_line_before_cursor w))
             (current_line_before_cursor w) w
           = ((Some (os_cwd w), path), chdir (expanduser h path) w)"
    using assms(1-3) by (rule enter_completed_dir_single)
  show ?thesis
    using fzf_insert_file_events [OF e, of d] fzf_insert_file_cwd [OF e assms(4,5), of d] assms(4,5)
    by simp
qed

theorem file_insertion_enters_and_leaves_directory_witness:
  "line_prefix (current_line_before_cursor demo_world) = Some ''fo'' \<and>
   complete_path demo_host (normpath demo_host ''fo'') (current_line_before_cursor demo_world) 0
     (length (current_line_before_cursor demo_world)) = [''foo/''] \<and>
   isdir demo_host (expanduser demo_host ''foo/'') \<and>
   finder_path demo_host demo_world \<noteq> [] \<and> os_cwd demo_world = ''/home/u'' \<and>
   chdirs (new_events demo_world (snd (fzf_insert_file demo_host False demo_world)))
     = [''foo/'', ''/home/u''] \<and>
   spawn_dirs (new_events demo_world (snd (fzf_insert_file demo_host False demo_world)))
     = [''foo/''] \<and>
   os_cwd (snd (fzf_insert_file demo_host False demo_world)) = ''/home/u''"
proof -
  have a: "line_prefix (current_line_before_cursor demo_world) = Some ''fo''"
    by (simp add: demo_line demo_prefix)
  have b: "complete_path demo_host (normpath demo_host ''fo'') (current_line_before_cursor demo_world) 0
     (length (current_line_before_cursor demo_world)) = [''foo/'']"
    by (simp add: demo_host_def)
  have c: "isdir demo_host (expanduser demo_host ''foo/'')" by (simp add: demo_host_def)
  have d: "finder_path demo_host demo_world \<noteq> []" by (simp add: demo_finder_path)
  have e: "os_cwd demo_world = ''/home/u''" by (simp add: demo_world_def)
  then have e': "os_cwd demo_world \<noteq> []" by simp
  show ?thesis
    using a b c d e file_insertion_enters_and_leaves_directory [OF a b c d e', of False]
    by (simp add: demo_file_events)
qed

text \<open>
  C7, as stated, fails for a line without a space: the word before the cursor is \<^verbatim>\<open>fo\<close>,
  it has the single completion \<^verbatim>\<open>foo/\<close>, a directory, and yet the action never changes
  directory: the finder runs in \<^verbatim>\<open>/home/u\<close>.
\<close>

theorem file_insertion_without_space_counterexample:
  "word_before_cursor no_space_world = ''fo'' \<and>
   complete_path demo_host (normpath demo_host (word_before_cursor no_space_world))
     (current_line_before_cursor no_space_world) 0
     (length (current_line_before_cursor no_space_world)) = [''foo/''] \<and>
   isdir demo_host (expanduser demo_host ''foo/'') \<and>
   fst (fzf_insert_file demo_host False no_space_world) = Inr () \<and>
   chdirs (new_events no_space_world (snd (fzf_insert_file demo_host False no_space_world))) = [] \<and>
   spawn_dirs (new_events no_space_world (snd (fzf_insert_file demo_host False no_space_world)))
     = [''/home/u'']"
proof -
  have l: "current_line_before_cursor no_space_world = ''fo''"
    by (simp add: current_line_before_cursor_def no_space_world_def demo_world_def)
  have p: "line_prefix ''fo'' = None"
    by (simp add: line_prefix_def rfind_def)
  have e: "enter_completed_dir demo_host (line_prefix (current_line_before_cursor no_space_world))
             (current_line_before_cursor no_space_world) no_space_world
           = ((None, []), no_space_world)"
    by (simp add: l p enter_completed_dir_def)
  have f: "finder_path demo_host no_space_world = ''/usr/bin/fzf''"
    using finder_path_cong [of no_space_world demo_world demo_host]
    by (simp add: demo_finder_path no_space_world_def)
  have pe: "path_events demo_host no_space_world = [Captured [''which'', ''fzf'']]"
    by (simp add: path_events_def name_events_def get_fzf_binary_name_fst no_space_world_def
        demo_world_def)
  have t: "trace no_space_world = []" "os_cwd no_space_world = ''/home/u''"
    by (simp_all add: no_space_world_def demo_world_def)
  have ev: "new_events no_space_world (snd (fzf_insert_file demo_host False no_space_world)) =
     [Captured [''which'', ''fzf''],
      SubprocessRun [''/usr/bin/fzf'', ''-m'', ''--reverse'', ''--height=40%''] None
        (os_environ (set_finder_env False no_space_world)) ''/home/u'',
      Erase, InsertText (file_command demo_host [])]"
    unfolding fzf_insert_file_eq [OF e]
    by (simp add: f demo_choice l p pe t new_events_def file_command_def
        insert_file_choice_def insert_text_def emit_def renderer_erase_def restore_cwd_def)
  have w: "word_before_cursor no_space_world = ''fo''"
    by (simp add: word_before_cursor_def l)
  have c: "complete_path demo_host (normpath demo_host ''fo'') line b e = [''foo/'']"
    "isdir demo_host (expanduser demo_host ''foo/'')" for line b e
    by (simp_all add: demo_host_def)
  show ?thesis
    by (simp add: ev fzf_insert_file_fst f w l c)
qed

section \<open>The multiplexer-aware variant\<close>

text \<open>
  C2. Inside a multiplexer session with \<^verbatim>\<open>fzf-tmux\<close> on the search path, the name
  returned is still \<^verbatim>\<open>fzf\<close>: the one lookup made asks for an executable called
  \<^verbatim>\<open>fzf_tmux_cmd\<close>, the name of the variable, not its value.
\<close>

theorem tmux_variant_not_chosen:
  "''TMUX'' \<in> dom (xsh_env tmux_world) \<and>
   captured_stdout tmux_host [''which'', ''fzf-tmux''] = ''/usr/bin/fzf-tmux'' \<and>
   fst (get_fzf_binary_name tmux_host tmux_world) = ''fzf'' \<and>
   new_events tmux_world (snd (get_fzf_binary_name tmux_host tmux_world))
     = [Captured [''which'', ''fzf_tmux_cmd'']]"
  by (simp add: get_fzf_binary_name_fst get_fzf_binary_name_snd name_events_def new_events_def
      tmux_host_def tmux_world_def)

section \<open>The environment of the parent\<close>

text \<open>
  C1. After the directory action has run with \<^verbatim>\<open>fzf_find_dirs_command\<close> configured, the
  parent's \<^verbatim>\<open>os.environ\<close> holds \<^verbatim>\<open>FZF_DEFAULT_COMMAND\<close>, which it did not hold before;
  a file action that follows, with no \<^verbatim>\<open>fzf_find_command\<close> configured, hands that
  directory command to its child.
\<close>

theorem dir_action_writes_parent_environment:
  "os_environ demo_world ''FZF_DEFAULT_COMMAND'' = None \<and>
   os_environ (snd (fzf_insert_file demo_host True demo_world)) ''FZF_DEFAULT_COMMAND''
     = Some ''fd -t d'' \<and>
   xsh_env (snd (fzf_insert_file demo_host True demo_world)) ''fzf_find_command'' = None \<and>
   child_env_values ''FZF_DEFAULT_COMMAND''
     (new_events (snd (fzf_insert_file demo_host True demo_world))
        (snd (fzf_insert_file demo_host False (snd (fzf_insert_file demo_host True demo_world)))))
     = [Some ''fd -t d'']"
proof -
  let ?w' = "snd (fzf_insert_file demo_host True demo_world)"
  have x: "xsh_env ?w' = xsh_env demo_world" by (rule fzf_insert_file_xsh_env)
  have f: "finder_path demo_host ?w' = ''/usr/bin/fzf''"
    using finder_path_cong [OF x, of demo_host] by (simp add: demo_finder_path)
  have xv: "xsh_env ?w' ''fzf_find_command'' = None" "xsh_env ?w' ''FZF_DEFAULT_OPTS'' = None"
    unfolding x by (simp_all add: demo_world_def)
  have s: "os_environ (set_finder_env False ?w') ''FZF_DEFAULT_COMMAND'' = Some ''fd -t d''"
    by (simp add: set_finder_env_def copy_setting_def Let_def xv demo_dir_environ)
  have a: "os_environ demo_world ''FZF_DEFAULT_COMMAND'' = None"
    "xsh_env demo_world ''fzf_find_command'' = None"
    by (simp_all add: demo_world_def)
  show ?thesis
    by (simp add: a xv f s demo_dir_environ fzf_insert_file_child_env)
qed

section \<open>Errors at the handler boundary\<close>




end
